theory Spec2Isabelle
  imports Complex_Main
begin

section \<open>Text: characters, stripping, splitting\<close>

text \<open>
  A Python \<open>str\<close> is modelled as a \<open>string\<close> whose every \<open>char\<close> is one code point in
  the range U+0000..U+00FF, so \<open>length\<close> counts code points as Python's \<open>len\<close> does.
  The character classes below are Python's classes restricted to that range.
\<close>

definition LF :: char where
  "LF = CHR 0x0A"

definition CR :: char where
  "CR = CHR 0x0D"

definition DQ :: char where
  "DQ = CHR 0x22"

definition SQ :: char where
  "SQ = CHR 0x27"

text \<open>\<open>str.isspace\<close> and the regular-expression class \<open>\s\<close> (they agree).\<close>

definition is_space :: "char \<Rightarrow> bool" where
  "is_space c \<longleftrightarrow> c \<in> set [CHR 0x09, CHR 0x0A, CHR 0x0B, CHR 0x0C, CHR 0x0D,
     CHR 0x1C, CHR 0x1D, CHR 0x1E, CHR 0x1F, CHR 0x20, CHR 0x85, CHR 0xA0]"

text \<open>The regular-expression class \<open>\d\<close>: decimal digits.\<close>

definition is_decimal :: "char \<Rightarrow> bool" where
  "is_decimal c \<longleftrightarrow> c \<in> set ''0123456789''"

text \<open>\<open>str.isdigit\<close>: the decimal digits and the superscripts two, three and one.\<close>

definition isdigit :: "char \<Rightarrow> bool" where
  "isdigit c \<longleftrightarrow> is_decimal c \<or> c \<in> set [CHR 0xB2, CHR 0xB3, CHR 0xB9]"

text \<open>The line boundaries of \<open>str.splitlines\<close> (a CR LF pair is one boundary).\<close>

definition is_linebreak :: "char \<Rightarrow> bool" where
  "is_linebreak c \<longleftrightarrow> c \<in> set [CHR 0x0A, CHR 0x0B, CHR 0x0C, CHR 0x0D,
     CHR 0x1C, CHR 0x1D, CHR 0x1E, CHR 0x85]"

text \<open>\<open>s.strip(chars)\<close> for a class of characters, and \<open>s.strip()\<close>.\<close>

definition strip_by :: "(char \<Rightarrow> bool) \<Rightarrow> string \<Rightarrow> string" where
  "strip_by P s = rev (dropWhile P (rev (dropWhile P s)))"

definition strip :: "string \<Rightarrow> string" where
  "strip s = strip_by is_space s"

definition strip_chars :: "string \<Rightarrow> string \<Rightarrow> string" where
  "strip_chars chars s = strip_by (\<lambda>c. c \<in> set chars) s"

text \<open>\<open>s.splitlines()\<close>: the line under construction is the first argument.\<close>

fun splitlines_from :: "string \<Rightarrow> string \<Rightarrow> string list" where
  "splitlines_from cur [] = (if cur = [] then [] else [cur])"
| "splitlines_from cur [c] = (if is_linebreak c then [cur] else [cur @ [c]])"
| "splitlines_from cur (c # d # ds) =
     (if c = CR \<and> d = LF then cur # splitlines_from [] ds
      else if is_linebreak c then cur # splitlines_from [] (d # ds)
      else splitlines_from (cur @ [c]) (d # ds))"

definition splitlines :: "string \<Rightarrow> string list" where
  "splitlines s = splitlines_from [] s"

text \<open>\<open>s.split()\<close>: the maximal runs of characters that are not whitespace.\<close>

fun split_from :: "string \<Rightarrow> string \<Rightarrow> string list" where
  "split_from cur [] = (if cur = [] then [] else [cur])"
| "split_from cur (c # cs) =
     (if is_space c then (if cur = [] then split_from [] cs else cur # split_from [] cs)
      else split_from (cur @ [c]) cs)"

definition split :: "string \<Rightarrow> string list" where
  "split s = split_from [] s"

text \<open>\<open>sep.join(xs)\<close>.\<close>

fun join :: "string \<Rightarrow> string list \<Rightarrow> string" where
  "join sep [] = []"
| "join sep [x] = x"
| "join sep (x # y # ys) = x @ sep @ join sep (y # ys)"

section \<open>Response parser (generator/questions.py)\<close>

text \<open>
  The pattern \<open>^\s*\d+\.\s*(.*)\<close> tried at the head of a text. Whitespace, decimal digits
  and the period are pairwise disjoint and \<open>(.*)\<close> matches the empty text, so the greedy
  match is the only one the backtracking matcher can find: all leading whitespace (line
  feeds included), all digits (at least one), a period, all following whitespace (line
  feeds included), then group 1 up to the next line feed. The result is group 1 and the
  text after the match.
\<close>

definition match_question :: "string \<Rightarrow> (string \<times> string) option" where
  "match_question s =
     (let s1 = dropWhile is_space s;
          s2 = dropWhile is_decimal s1
      in if takeWhile is_decimal s1 = [] then None
         else (case s2 of
                 [] \<Rightarrow> None
               | c # s3 \<Rightarrow>
                   if c \<noteq> CHR ''.'' then None
                   else (let s4 = dropWhile is_space s3
                         in Some (takeWhile (\<lambda>x. x \<noteq> LF) s4, dropWhile (\<lambda>x. x \<noteq> LF) s4))))"

lemma match_question_shorter:
  assumes "match_question s = Some (g, rest)"
  shows "length rest < length s"
proof -
  have a: "length (dropWhile P xs) \<le> length xs" for P and xs :: string
    by (rule length_dropWhile_le)
  obtain c s3 where s2: "dropWhile is_decimal (dropWhile is_space s) = c # s3"
    and rest: "rest = dropWhile (\<lambda>x. x \<noteq> LF) (dropWhile is_space s3)"
    using assms
    by (auto simp: match_question_def Let_def split: if_splits list.splits)
  have "length rest \<le> length s3"
    unfolding rest
    using a [of "\<lambda>x. x \<noteq> LF" "dropWhile is_space s3"] a [of is_space s3] by linarith
  moreover have "length (c # s3) \<le> length s"
    using a [of is_decimal "dropWhile is_space s"] a [of is_space s] unfolding s2 by linarith
  ultimately show ?thesis by simp
qed

text \<open>
  \<open>findall\<close> in MULTILINE mode, scanning the text from left to right. The flag says
  whether \<open>^\<close> matches at the current position: at the start of the text and after each
  line feed. After a match the scan resumes where the match ended.
\<close>

function findall_questions :: "bool \<Rightarrow> string \<Rightarrow> string list" where
  "findall_questions bol [] = []"
| "findall_questions bol (c # cs) =
     (case (if bol then match_question (c # cs) else None) of
        None \<Rightarrow> findall_questions (c = LF) cs
      | Some (g, rest) \<Rightarrow>
          g # findall_questions (last (take (length (c # cs) - length rest) (c # cs)) = LF) rest)"
  by pat_completeness auto
termination
proof (relation "measure (\<lambda>(bol, s). length s)")
  show "wf (measure (\<lambda>(bol, s). length s))" by simp
next
  fix bol :: bool and c :: char and cs :: string
  show "((c = LF, cs), (bol, c # cs)) \<in> measure (\<lambda>(bol, s). length s)" by simp
next
  fix bol :: bool and c :: char and cs :: string and x2 :: "string \<times> string" and g rest :: string
  assume "(if bol then match_question (c # cs) else None) = Some x2" and "(g, rest) = x2"
  then have "match_question (c # cs) = Some (g, rest)"
    by (auto split: if_splits)
  then have "length rest < length (c # cs)"
    by (rule match_question_shorter)
  then show "((last (take (length (c # cs) - length rest) (c # cs)) = LF, rest), (bol, c # cs))
      \<in> measure (\<lambda>(bol, s). length s)"
    by simp
qed

text \<open>The loop over the matches: strip, drop what is empty, then strip spaces and asterisks.\<close>

fun primary_loop :: "string list \<Rightarrow> string list \<Rightarrow> string list" where
  "primary_loop [] questions = questions"
| "primary_loop (m # ms) questions =
     (let question = strip m
      in if question \<noteq> [] then primary_loop ms (questions @ [strip_chars '' *'' question])
         else primary_loop ms questions)"

text \<open>
  \<open>re.sub(r"^\s*[\d\.\-\*]+\s*", '', line)\<close>: without MULTILINE the pattern can match at
  the start of the line only, so at most one occurrence is removed.
\<close>

definition is_marker :: "char \<Rightarrow> bool" where
  "is_marker c \<longleftrightarrow> is_decimal c \<or> c \<in> set ''.-*''"

definition sub_marker :: "string \<Rightarrow> string" where
  "sub_marker line =
     (let l1 = dropWhile is_space line
      in if takeWhile is_marker l1 = [] then line
         else dropWhile is_space (dropWhile is_marker l1))"

text \<open>The fallback loop over the lines of the response.\<close>

fun fallback_loop :: "string list \<Rightarrow> string list \<Rightarrow> string list" where
  "fallback_loop [] potential_questions = potential_questions"
| "fallback_loop (l # ls) potential_questions =
     (let line = strip l
      in if line \<noteq> [] \<and> length line > 2 \<and> (isdigit (hd line) \<or> hd line \<in> set ''-*'') then
           (let cleaned_line = sub_marker line
            in if cleaned_line \<noteq> [] \<and> CHR ''?'' \<in> set cleaned_line
               then fallback_loop ls (potential_questions @ [cleaned_line])
               else fallback_loop ls potential_questions)
         else if line \<noteq> [] \<and> CHR ''?'' \<in> set line \<and> length (split line) > 3
           then fallback_loop ls (potential_questions @ [line])
         else fallback_loop ls potential_questions)"

definition parse_questions_from_response :: "string \<Rightarrow> string list" where
  "parse_questions_from_response response_text =
     (if response_text = [] \<or> strip response_text = [] then []
      else
        (let matches = findall_questions True response_text;
             questions = primary_loop matches []
         in if questions = [] \<and> response_text \<noteq> [] then
              (let potential_questions = fallback_loop (splitlines response_text) []
               in if potential_questions \<noteq> [] then potential_questions else questions)
            else questions))"

text \<open>The result of the primary strategy: the questions taken from the numbered items.\<close>

definition primary_questions :: "string \<Rightarrow> string list" where
  "primary_questions response_text = primary_loop (findall_questions True response_text) []"

text \<open>
  The fallback heuristic as the specification words it, for one line: trim the line; if it
  is longer than 2 characters and starts with a digit or a bullet, and what is left after
  the leading marker still contains a question mark, accept what is left; or, if it contains
  a question mark and has more than 3 whitespace-separated tokens, accept the line.
\<close>

definition heuristic_accept :: "string \<Rightarrow> string option" where
  "heuristic_accept l =
     (let line = strip l
      in if length line > 2 \<and> (isdigit (hd line) \<or> hd line \<in> set ''-*'')
            \<and> CHR ''?'' \<in> set (sub_marker line)
         then Some (sub_marker line)
         else if CHR ''?'' \<in> set line \<and> length (split line) > 3 then Some line
         else None)"

definition heuristic_questions :: "string \<Rightarrow> string list" where
  "heuristic_questions response_text =
     List.map_filter heuristic_accept (splitlines response_text)"

section \<open>The model-serving collaborator\<close>

text \<open>
  The serving process is outside the program: what a call returns is a parameter of the
  model, and the state of the outside world (type \<open>'w\<close>) is threaded through every call,
  so two calls with equal arguments may return different results. Logging is not
  modelled: it has no influence on any returned value.

  \<open>Reply c\<close>: the call returned and \<open>response['message']['content']\<close> is \<open>c\<close>.
  \<open>ResponseError\<close>: \<open>ollama.ResponseError\<close> with its status code and message.
  \<open>Fault\<close>: any other \<open>Exception\<close> (a malformed response included).
\<close>

datatype chat_result = Reply string | ResponseError int string | Fault

type_synonym dict = "(string \<times> string) list"

type_synonym ('t, 'w) chat = "string \<Rightarrow> dict list \<Rightarrow> 't \<Rightarrow> 'w \<Rightarrow> chat_result \<times> 'w"

text \<open>
  \<open>ollama.list()\<close>: \<open>None\<close> when the call raises, else for each installed model the value
  of \<open>m.get('model')\<close>.
\<close>

type_synonym 'w list_models = "'w \<Rightarrow> string option list option \<times> 'w"

text \<open>\<open>str(n)\<close> for an integer, as an f-string formats it.\<close>

fun str_nat :: "nat \<Rightarrow> string" where
  "str_nat n = (if n < 10 then [''0123456789'' ! n]
                else str_nat (n div 10) @ [''0123456789'' ! (n mod 10)])"

definition str_int :: "int \<Rightarrow> string" where
  "str_int i = (if i < 0 then ''-'' @ str_nat (nat (- i)) else str_nat (nat i))"

text \<open>\<open>s[:n]\<close>: a negative bound counts from the end.\<close>

definition slice_to :: "string \<Rightarrow> int \<Rightarrow> string" where
  "slice_to s n = (if 0 \<le> n then take (nat n) s else take (nat (int (length s) + n)) s)"

section \<open>Question generator (generator/questions.py)\<close>

definition question_prompt :: "int \<Rightarrow> string \<Rightarrow> string" where
  "question_prompt num_questions truncated_content =
     [LF] @ join [LF]
      [''        Based *only* on the following document content, please generate exactly ''
         @ str_int num_questions @ '' relevant and'',
       ''        insightful questions that test understanding of the main topics, key details, or potential implications discussed.'',
       ''        Do not ask questions that cannot be answered from the provided text.'',
       ''        Format the output *strictly* as a numbered list, with each question on a new line (e.g., ''
         @ [DQ] @ ''1. Question one?'' @ [DQ] @ '').'',
       ''        Do not include any introductory text like '' @ [DQ] @ ''Here are the questions:''
         @ [DQ] @ '' or any concluding remarks.'',
       [],
       ''        Document Content:'',
       ''        --- START OF DOCUMENT ---'',
       ''        '' @ truncated_content,
       ''        --- END OF DOCUMENT ---'',
       [],
       ''        Generate '' @ str_int num_questions @ '' questions now:'',
       ''    '']"

definition generate_questions_ollama ::
  "('t, 'w) chat \<Rightarrow> string \<Rightarrow> int \<Rightarrow> string \<Rightarrow> 't \<Rightarrow> int \<Rightarrow> 'w \<Rightarrow> string list option \<times> 'w" where
  "generate_questions_ollama chat content num_questions model temperature
       max_gen_prompt_content_len w =
     (if content = [] then (None, w)
      else
        (let truncated_content = slice_to content max_gen_prompt_content_len;
             prompt = question_prompt num_questions truncated_content;
             messages = [[(''role'', ''user''), (''content'', prompt)]]
         in case chat model messages temperature w of
              (Reply raw_response_text, w') \<Rightarrow>
                (let questions = parse_questions_from_response raw_response_text
                 in if questions = [] then (Some [], w') else (Some questions, w'))
            | (ResponseError status_code err, w') \<Rightarrow> (None, w')
            | (Fault, w') \<Rightarrow> (None, w')))"

section \<open>Answer generator (generator/answers.py)\<close>

definition sentinel :: string where
  "sentinel = ''The document does not provide an answer to this question.''"

definition answer_prompt :: "string \<Rightarrow> string \<Rightarrow> string" where
  "answer_prompt question context =
     [LF] @ join [LF]
      [''        You are an expert assistant specialized in answering questions based *strictly* on the provided text document.'',
       ''        Use *only* the information available in the document below to answer the question.'',
       ''        Do not use any prior knowledge or information from outside the document.'',
       ''        If the answer cannot be found within the document text, you MUST respond with the exact phrase:'',
       ''        '' @ [DQ] @ sentinel @ [DQ],
       ''        Do not add any explanation or apology if the answer is not found.'',
       ''        Provide a concise and direct answer based on the text. Avoid introductory phrases like ''
         @ [DQ] @ ''According to the document...'' @ [DQ] @ '' unless essential for clarity.'',
       [],
       ''        --- START OF DOCUMENT ---'',
       ''        '' @ context,
       ''        --- END OF DOCUMENT ---'',
       [],
       ''        Based *only* on the document above, answer the following question:'',
       ''        Question: '' @ question,
       [],
       ''        Answer:'',
       ''    '']"

definition answer_question_ollama ::
  "('t, 'w) chat \<Rightarrow> string \<Rightarrow> string \<Rightarrow> string \<Rightarrow> 't \<Rightarrow> 'w \<Rightarrow> string option \<times> 'w" where
  "answer_question_ollama chat question context model temperature w =
     (if context = [] then (None, w)
      else if question = [] then (None, w)
      else
        (let prompt = answer_prompt question context;
             messages = [[(''role'', ''user''), (''content'', prompt)]]
         in case chat model messages temperature w of
              (Reply content, w') \<Rightarrow> (Some (strip content), w')
            | (ResponseError status_code err, w') \<Rightarrow> (None, w')
            | (Fault, w') \<Rightarrow> (None, w')))"

definition fallback_answer :: string where
  "fallback_answer = ''Error occurred while generating this answer.''"

text \<open>The loop of \<open>answers_questions_ollama\<close>: the list built so far is the accumulator.\<close>

fun answers_loop ::
  "('t, 'w) chat \<Rightarrow> string \<Rightarrow> string \<Rightarrow> 't \<Rightarrow> string list \<Rightarrow> string list \<Rightarrow> 'w
     \<Rightarrow> string list \<times> 'w" where
  "answers_loop chat document_content model temperature [] answers_questions w =
     (answers_questions, w)"
| "answers_loop chat document_content model temperature (question # rest) answers_questions w =
     (case answer_question_ollama chat question document_content model temperature w of
        (None, w') \<Rightarrow>
          answers_loop chat document_content model temperature rest
            (answers_questions @ [fallback_answer]) w'
      | (Some answer, w') \<Rightarrow>
          answers_loop chat document_content model temperature rest
            (answers_questions @ [answer]) w')"

definition answers_questions_ollama ::
  "('t, 'w) chat \<Rightarrow> string \<Rightarrow> string list \<Rightarrow> string \<Rightarrow> 't \<Rightarrow> 'w \<Rightarrow> string list \<times> 'w" where
  "answers_questions_ollama chat document_content generated_questions model temperature w =
     answers_loop chat document_content model temperature generated_questions [] w"

section \<open>Dataset formatter (generator/utils.py)\<close>

text \<open>
  What the program can raise. \<open>KeyboardInterrupt\<close> is not an \<open>Exception\<close> in Python, the
  others are.
\<close>

datatype py_exception = KeyboardInterrupt | IndexError | OSError

text \<open>\<open>xs[i]\<close> for an index that is not negative.\<close>

definition get_item :: "'a list \<Rightarrow> nat \<Rightarrow> py_exception + 'a" where
  "get_item xs i = (if i < length xs then Inr (xs ! i) else Inl IndexError)"

text \<open>
  A \<open>dict\<close> of strings is the list of its items in insertion order. The three loops run
  over \<open>range(len(generated_questions))\<close>; the list built so far is the accumulator.
\<close>

fun default_loop ::
  "string list \<Rightarrow> string list \<Rightarrow> nat list \<Rightarrow> dict list \<Rightarrow> py_exception + dict list" where
  "default_loop generated_questions answers_questions [] basic_temp = Inr basic_temp"
| "default_loop generated_questions answers_questions (i # indices) basic_temp =
     (case get_item generated_questions i of
        Inl e \<Rightarrow> Inl e
      | Inr q \<Rightarrow>
          (case get_item answers_questions i of
             Inl e \<Rightarrow> Inl e
           | Inr a \<Rightarrow>
               default_loop generated_questions answers_questions indices
                 (basic_temp @ [[(''input'', q), (''output'', a)]])))"

definition create_default_template ::
  "string list \<Rightarrow> string list \<Rightarrow> py_exception + dict list" where
  "create_default_template generated_questions answers_questions =
     (if length generated_questions \<noteq> length answers_questions then Inr []
      else default_loop generated_questions answers_questions
             [0..<length generated_questions] [])"

fun gemma_loop ::
  "string list \<Rightarrow> string list \<Rightarrow> nat list \<Rightarrow> dict list \<Rightarrow> py_exception + dict list" where
  "gemma_loop generated_questions answers_questions [] gemma_temp = Inr gemma_temp"
| "gemma_loop generated_questions answers_questions (i # indices) gemma_temp =
     (case get_item generated_questions i of
        Inl e \<Rightarrow> Inl e
      | Inr q \<Rightarrow>
          (case get_item answers_questions i of
             Inl e \<Rightarrow> Inl e
           | Inr a \<Rightarrow>
               gemma_loop generated_questions answers_questions indices
                 (gemma_temp @ [[(''content'', q), (''role'', ''user'')],
                                [(''content'', a), (''role'', ''assistant'')]])))"

definition create_gemma_template ::
  "string list \<Rightarrow> string list \<Rightarrow> py_exception + dict list" where
  "create_gemma_template generated_questions answers_questions =
     (if length generated_questions \<noteq> length answers_questions then Inr []
      else gemma_loop generated_questions answers_questions
             [0..<length generated_questions] [])"

fun llama_loop ::
  "string list \<Rightarrow> string list \<Rightarrow> nat list \<Rightarrow> dict list \<Rightarrow> py_exception + dict list" where
  "llama_loop generated_questions answers_questions [] conversations = Inr conversations"
| "llama_loop generated_questions answers_questions (i # indices) conversations =
     (case get_item generated_questions i of
        Inl e \<Rightarrow> Inl e
      | Inr q \<Rightarrow>
          (case get_item answers_questions i of
             Inl e \<Rightarrow> Inl e
           | Inr a \<Rightarrow>
               llama_loop generated_questions answers_questions indices
                 (conversations @ [[(''from'', ''human''), (''value'', q)],
                                   [(''from'', ''gpt''), (''value'', a)]])))"

text \<open>The wrapper \<open>{"conversations": [...]}\<close> is the list of its one item.\<close>

definition create_llama_template ::
  "string list \<Rightarrow> string list \<Rightarrow> py_exception + (string \<times> dict list) list" where
  "create_llama_template generated_questions answers_questions =
     (if length generated_questions \<noteq> length answers_questions
      then Inr [(''conversations'', [])]
      else (case llama_loop generated_questions answers_questions
                   [0..<length generated_questions] [] of
              Inl e \<Rightarrow> Inl e
            | Inr conversations \<Rightarrow> Inr [(''conversations'', conversations)]))"

text \<open>\<open>str.lower\<close> on the code points U+0000..U+00FF.\<close>

definition lower_char :: "char \<Rightarrow> char" where
  "lower_char c =
     (let n = (of_char c :: nat)
      in if (65 \<le> n \<and> n \<le> 90) \<or> (192 \<le> n \<and> n \<le> 222 \<and> n \<noteq> 215)
         then char_of (n + 32) else c)"

definition lower :: "string \<Rightarrow> string" where
  "lower s = map lower_char s"

text \<open>
  What \<open>create_template\<close> returns: a list of records, the conversation wrapper, the error
  text, or \<open>None\<close> when no branch returns.
\<close>

datatype template_result =
  TList "dict list" | TDict "(string \<times> dict list) list" | TStr string | TNone

definition create_template ::
  "string \<Rightarrow> string list \<Rightarrow> string list \<Rightarrow> string list \<Rightarrow> py_exception + template_result" where
  "create_template template generated_questions answers_questions supported_templates =
     (if lower template \<notin> set supported_templates then
        Inr (TStr (''Error: Unsupported template '' @ [SQ] @ template @ [SQ]
                   @ ''. Choose from: '' @ join '', '' supported_templates))
      else if lower template = ''default'' then
        (case create_default_template generated_questions answers_questions of
           Inl e \<Rightarrow> Inl e | Inr r \<Rightarrow> Inr (TList r))
      else if lower template = ''gemma'' then
        (case create_gemma_template generated_questions answers_questions of
           Inl e \<Rightarrow> Inl e | Inr r \<Rightarrow> Inr (TList r))
      else if lower template = ''llama'' then
        (case create_llama_template generated_questions answers_questions of
           Inl e \<Rightarrow> Inl e | Inr r \<Rightarrow> Inr (TDict r))
      else Inr TNone)"

section \<open>Model availability (generator/utils.py)\<close>

definition check_ollama_connection :: "'w list_models \<Rightarrow> 'w \<Rightarrow> bool \<times> 'w" where
  "check_ollama_connection ollama_list w =
     (case ollama_list w of (None, w') \<Rightarrow> (False, w') | (Some models, w') \<Rightarrow> (True, w'))"

text \<open>
  \<open>check_ollama\<close> returns \<open>None\<close> or \<open>True\<close>. A model entry without a name makes the join
  of the names in an error message raise, which the function catches and turns into
  \<open>None\<close>, the value those branches return anyway.
\<close>

definition check_ollama ::
  "'w list_models \<Rightarrow> string \<Rightarrow> string \<Rightarrow> string \<Rightarrow> string \<Rightarrow> 'w \<Rightarrow> bool option \<times> 'w" where
  "check_ollama ollama_list model_gen model_ret default_gen_model default_ret_model w =
     (case check_ollama_connection ollama_list w of
        (False, w1) \<Rightarrow> (None, w1)
      | (True, w1) \<Rightarrow>
          (case ollama_list w1 of
             (None, w2) \<Rightarrow> (None, w2)
           | (Some model_names, w2) \<Rightarrow>
               if Some model_gen \<notin> set model_names then (None, w2)
               else if Some model_ret \<notin> set model_names then (None, w2)
               else if Some default_gen_model \<notin> set model_names then (None, w2)
               else if Some default_ret_model \<notin> set model_names then (None, w2)
               else (Some True, w2)))"

section \<open>Orchestrator (main.py)\<close>

record 't config =
  DEFAULT_NUM_QUESTIONS :: int
  DEFAULT_TEMPLATE :: string
  SUPPORTED_TEMPLATES :: "string list"
  SUPPORTED_FILE_TYPES :: "string list"
  DEFAULT_GEN_OLLAMA_MODEL :: string
  DEFAULT_RET_OLLAMA_MODEL :: string
  DEFAULT_GEN_TEMPERATURE :: 't
  DEFAULT_RET_TEMPERATURE :: 't
  DEFAULT_OUTPUT_DIR :: string
  MAX_GEN_PROMPT_CONTENT_LEN :: int

record 't arguments =
  arg_file :: string
  arg_questions :: int
  arg_template :: string
  arg_model_gen :: string
  arg_model_ret :: string
  arg_gen_temp :: 't
  arg_ret_temp :: 't
  arg_output_dir :: string

text \<open>
  The collaborators of one run: reading the document (\<open>get_document_content\<close>, \<open>None\<close>
  when the file cannot be read), the serving process, and whether the output directory can
  be created.
\<close>

record ('t, 'w) environment =
  env_document :: "string \<Rightarrow> string list \<Rightarrow> string option"
  env_list :: "'w list_models"
  env_chat :: "('t, 'w) chat"
  env_makedirs :: "string \<Rightarrow> bool"

text \<open>
  \<open>save_dataset\<close>: the two files it writes are not modelled; failures to write them are
  caught inside the function, a failure to create the directory is not.
\<close>

definition save_dataset ::
  "('t, 'w) environment \<Rightarrow> template_result \<Rightarrow> string \<Rightarrow> string \<Rightarrow> py_exception + unit" where
  "save_dataset env file template output_dir =
     (if (case file of TStr s \<Rightarrow> take 6 s = ''Error:'' | _ \<Rightarrow> False) then Inr ()
      else if env_makedirs env output_dir then Inr ()
      else Inl OSError)"

text \<open>Python's truth value of the formatter's result, and \<open>isinstance(data, str)\<close>.\<close>

fun truthy :: "template_result \<Rightarrow> bool" where
  "truthy (TList xs) = (xs \<noteq> [])"
| "truthy (TDict d) = (d \<noteq> [])"
| "truthy (TStr s) = (s \<noteq> [])"
| "truthy TNone = False"

fun is_str :: "template_result \<Rightarrow> bool" where
  "is_str (TStr s) = True"
| "is_str r = False"

text \<open>\<open>x or d\<close> for strings and numbers.\<close>

definition or_str :: "string \<Rightarrow> string \<Rightarrow> string" where
  "or_str x d = (if x \<noteq> [] then x else d)"

definition or_num :: "'a::zero \<Rightarrow> 'a \<Rightarrow> 'a" where
  "or_num x d = (if x \<noteq> 0 then x else d)"

text \<open>
  \<open>main\<close> returns an exit status, returns \<open>None\<close>, or lets an exception escape.
\<close>

definition main ::
  "('t::zero, 'w) environment \<Rightarrow> 't config \<Rightarrow> 't arguments \<Rightarrow> 'w \<Rightarrow> py_exception + int option" where
  "main env cfg args w =
     (case env_document env (arg_file args) (SUPPORTED_FILE_TYPES cfg) of
        None \<Rightarrow> Inr (Some 1)
      | Some document_content \<Rightarrow>
          if strip document_content = [] then Inr (Some 1)
          else
            (case check_ollama (env_list env) (arg_model_gen args) (arg_model_ret args)
                    (DEFAULT_GEN_OLLAMA_MODEL cfg) (DEFAULT_RET_OLLAMA_MODEL cfg) w of
               (None, w1) \<Rightarrow> Inr None
             | (Some False, w1) \<Rightarrow> Inr None
             | (Some True, w1) \<Rightarrow>
                 (case generate_questions_ollama (env_chat env) document_content
                         (or_num (arg_questions args) (DEFAULT_NUM_QUESTIONS cfg))
                         (or_str (arg_model_gen args) (DEFAULT_GEN_OLLAMA_MODEL cfg))
                         (or_num (arg_gen_temp args) (DEFAULT_GEN_TEMPERATURE cfg))
                         (MAX_GEN_PROMPT_CONTENT_LEN cfg) w1 of
                    (None, w2) \<Rightarrow> Inr (Some 1)
                  | (Some generated_questions, w2) \<Rightarrow>
                      if generated_questions = [] then Inr (Some 1)
                      else
                        (case answers_questions_ollama (env_chat env) document_content
                                generated_questions
                                (or_str (arg_model_ret args) (DEFAULT_RET_OLLAMA_MODEL cfg))
                                (or_num (arg_ret_temp args) (DEFAULT_RET_TEMPERATURE cfg)) w2 of
                           (answers_questions, w3) \<Rightarrow>
                             if answers_questions = [] then Inr (Some 1)
                             else
                               (case create_template (arg_template args) generated_questions
                                       answers_questions (SUPPORTED_TEMPLATES cfg) of
                                  Inl e \<Rightarrow> Inl e
                                | Inr data \<Rightarrow>
                                    if truthy data \<and> \<not> is_str data then
                                      (case save_dataset env data
                                              (or_str (arg_template args) (DEFAULT_TEMPLATE cfg))
                                              (or_str (arg_output_dir args) (DEFAULT_OUTPUT_DIR cfg)) of
                                         Inl e \<Rightarrow> Inl e
                                       | Inr u \<Rightarrow> Inr (Some 0))
                                    else Inr (Some 1))))))"

text \<open>
  The process exit status of \<open>sys.exit(main())\<close> under the handlers of the script:
  \<open>sys.exit(None)\<close> exits with status 0, \<open>sys.exit(n)\<close> with status \<open>n\<close>; a
  \<open>KeyboardInterrupt\<close> gives 130 and any \<open>Exception\<close> gives 1.
\<close>

definition exit_status :: "py_exception + int option \<Rightarrow> int" where
  "exit_status r =
     (case r of
        Inr None \<Rightarrow> 0
      | Inr (Some n) \<Rightarrow> n
      | Inl KeyboardInterrupt \<Rightarrow> 130
      | Inl e \<Rightarrow> 1)"

definition run ::
  "('t::zero, 'w) environment \<Rightarrow> 't config \<Rightarrow> 't arguments \<Rightarrow> 'w \<Rightarrow> int" where
  "run env cfg args w = exit_status (main env cfg args w)"

section \<open>Concrete runs\<close>

text \<open>
  A configuration, command-line arguments and collaborators for concrete runs. The world
  state counts the calls made to the serving process so far.
\<close>

definition example_config :: "rat config" where
  "example_config =
     \<lparr>DEFAULT_NUM_QUESTIONS = 5, DEFAULT_TEMPLATE = ''default'',
      SUPPORTED_TEMPLATES = [''default'', ''gemma'', ''llama''],
      SUPPORTED_FILE_TYPES = [''.txt'', ''.pdf''],
      DEFAULT_GEN_OLLAMA_MODEL = ''llama3'', DEFAULT_RET_OLLAMA_MODEL = ''llama3'',
      DEFAULT_GEN_TEMPERATURE = 7 / 10, DEFAULT_RET_TEMPERATURE = 1 / 10,
      DEFAULT_OUTPUT_DIR = ''output'', MAX_GEN_PROMPT_CONTENT_LEN = 8000\<rparr>"

definition example_arguments :: "rat arguments" where
  "example_arguments =
     \<lparr>arg_file = ''notes.txt'', arg_questions = 2, arg_template = ''default'',
      arg_model_gen = ''llama3'', arg_model_ret = ''llama3'',
      arg_gen_temp = 7 / 10, arg_ret_temp = 1 / 10, arg_output_dir = ''output''\<rparr>"

definition example_document :: "string \<Rightarrow> string list \<Rightarrow> string option" where
  "example_document filepath supported_file_types = Some ''Water boils at 100 degrees.''"

text \<open>
  A serving process that answers every call, except that its fourth call (the second
  question of a run that made two listing calls and one generation call) fails.
\<close>

definition scripted_chat :: "(rat, nat) chat" where
  "scripted_chat model messages temperature w =
     (if w = 2 then (Reply (''1. What boils?'' @ [LF] @ ''2. *At what temperature?*''), Suc w)
      else if w = 4 then (Fault, Suc w)
      else (Reply (''  Water. '' @ [LF]), Suc w))"

text \<open>A serving process that abstains: the sentinel phrase with whitespace around it.\<close>

definition abstaining_chat :: "(rat, nat) chat" where
  "abstaining_chat model messages temperature w =
     (Reply (''  '' @ [LF] @ sentinel @ '' '' @ [LF]), Suc w)"

definition prose_chat :: "(rat, nat) chat" where
  "prose_chat model messages temperature w =
     (Reply ''I am unable to produce a list.'', Suc w)"

definition error_chat :: "(rat, nat) chat" where
  "error_chat model messages temperature w = (ResponseError 500 ''internal error'', Suc w)"

definition list_unreachable :: "nat list_models" where
  "list_unreachable w = (None, Suc w)"

definition list_installed :: "string list \<Rightarrow> nat list_models" where
  "list_installed names w = (Some (map Some names), Suc w)"

definition makedirs_succeeds :: "string \<Rightarrow> bool" where
  "makedirs_succeeds output_dir = True"

definition env_unreachable :: "(rat, nat) environment" where
  "env_unreachable =
     \<lparr>env_document = example_document, env_list = list_unreachable,
      env_chat = scripted_chat, env_makedirs = makedirs_succeeds\<rparr>"

definition env_model_missing :: "(rat, nat) environment" where
  "env_model_missing =
     \<lparr>env_document = example_document, env_list = list_installed [''mistral''],
      env_chat = scripted_chat, env_makedirs = makedirs_succeeds\<rparr>"

definition env_available :: "(rat, nat) environment" where
  "env_available =
     \<lparr>env_document = example_document, env_list = list_installed [''llama3''],
      env_chat = scripted_chat, env_makedirs = makedirs_succeeds\<rparr>"

section \<open>Orchestrator: exit status\<close>

lemma run_check_failed:
  assumes "env_document env (arg_file args) (SUPPORTED_FILE_TYPES cfg) = Some d"
    and "strip d \<noteq> []"
    and "fst (check_ollama (env_list env) (arg_model_gen args) (arg_model_ret args)
           (DEFAULT_GEN_OLLAMA_MODEL cfg) (DEFAULT_RET_OLLAMA_MODEL cfg) w) \<noteq> Some True"
  shows "main env cfg args w = Inr None" and "run env cfg args w = 0"
  using assms
  by (auto simp: run_def main_def exit_status_def split: prod.splits option.splits bool.splits)

lemma run_success_example: "run env_available example_config example_arguments 0 = 0"
  by code_simp

text \<open>
  Claim C1. Every stage failure, the model-availability check included, should end the
  process with exit status 1. In the code, when \<open>check_ollama\<close> reports the serving process
  unreachable or a model missing, \<open>main\<close> returns \<open>None\<close> and the process exits with
  status 0, as on success.
\<close>

theorem run_model_unavailable_exits_0:
  "fst (check_ollama list_unreachable ''llama3'' ''llama3'' ''llama3'' ''llama3'' 0) = None
   \<and> run env_unreachable example_config example_arguments 0 = 0
   \<and> fst (check_ollama (list_installed [''mistral'']) ''llama3'' ''llama3'' ''llama3'' ''llama3'' 0)
       = None
   \<and> run env_model_missing example_config example_arguments 0 = 0"
  by code_simp

section \<open>Response parser: the numbered list\<close>

text \<open>
  Claim C3. On a text whose questions are lines of the form whitespace, digits, period,
  whitespace, content, the parser should return the contents with the numeric markers
  stripped. In the code, the whitespace after the period of a marker without content runs
  across the line feed, and the next line is returned with its marker: the question of the
  line \<open>2. foo\<close> comes back as \<open>2. foo\<close>.
\<close>

theorem parse_keeps_marker_after_empty_item:
  "parse_questions_from_response (''1.'' @ [LF] @ ''2. foo'') = [''2. foo'']"
  by code_simp

text \<open>
  Claim C5. Every string the parser returns should be non-empty. In the code, the test for
  an empty question comes before the spaces and asterisks are stripped, and an item made of
  asterisks is returned as the empty string.
\<close>

theorem parse_returns_empty_question:
  "parse_questions_from_response ''1. *'' = [[]]"
  by code_simp

section \<open>Question generator: no parseable output\<close>

text \<open>
  Claim C6 as stated: when the model call succeeds and the parser extracts no question,
  the generator reports the same failure as for a model-reported error. It does not: the
  first run returns the empty list, the second returns \<open>None\<close>.
\<close>

theorem generate_empty_differs_from_error:
  "fst (generate_questions_ollama prose_chat ''Water boils.'' 5 ''llama3'' (7 / 10) 8000 0)
     = Some []
   \<and> fst (generate_questions_ollama error_chat ''Water boils.'' 5 ''llama3'' (7 / 10) 8000 0)
     = None"
  by code_simp

text \<open>
  Claim C6, amended. With a non-empty content, when the model call succeeds and the parser
  extracts no question the generator returns the empty list; when the model reports an
  error it returns \<open>None\<close>. The two outcomes are different values.
\<close>

theorem generate_no_questions_returns_empty_list:
  assumes "content \<noteq> []"
    and "chat1 model
           [[(''role'', ''user''),
             (''content'', question_prompt n (slice_to content max_len))]] temperature w
         = (Reply raw, w1)"
    and "parse_questions_from_response raw = []"
    and "chat2 model
           [[(''role'', ''user''),
             (''content'', question_prompt n (slice_to content max_len))]] temperature w
         = (ResponseError status_code err, w2)"
  shows "generate_questions_ollama chat1 content n model temperature max_len w = (Some [], w1)
    \<and> generate_questions_ollama chat2 content n model temperature max_len w = (None, w2)
    \<and> fst (generate_questions_ollama chat1 content n model temperature max_len w)
        \<noteq> fst (generate_questions_ollama chat2 content n model temperature max_len w)"
  using assms by (simp add: generate_questions_ollama_def Let_def)

theorem generate_no_questions_returns_empty_list_witness:
  "generate_questions_ollama prose_chat ''Water boils.'' 5 ''llama3'' (7 / 10) 8000 0
     = (Some [], 1)
   \<and> generate_questions_ollama error_chat ''Water boils.'' 5 ''llama3'' (7 / 10) 8000 0
     = (None, 1)"
proof -
  have c: "''Water boils.'' \<noteq> []" by simp
  have r1: "prose_chat ''llama3''
      [[(''role'', ''user''),
        (''content'', question_prompt 5 (slice_to ''Water boils.'' 8000))]] (7 / 10) 0
      = (Reply ''I am unable to produce a list.'', 1)"
    by (simp add: prose_chat_def)
  have p: "parse_questions_from_response ''I am unable to produce a list.'' = []"
    by code_simp
  have r2: "error_chat ''llama3''
      [[(''role'', ''user''),
        (''content'', question_prompt 5 (slice_to ''Water boils.'' 8000))]] (7 / 10) 0
      = (ResponseError 500 ''internal error'', 1)"
    by (simp add: error_chat_def)
  show ?thesis
    using generate_no_questions_returns_empty_list
      [where ?chat1.0 = prose_chat and ?chat2.0 = error_chat and content = "''Water boils.''"
         and model = "''llama3''" and n = 5 and max_len = 8000 and temperature = "7 / 10"
         and w = 0, OF c r1 p r2]
    by simp
qed

section \<open>Dataset formatter\<close>

lemma lower_char_idem: "lower_char (lower_char c) = lower_char c"
  by (auto simp: lower_char_def Let_def)

lemma lower_idem: "lower (lower s) = lower s"
  by (simp add: lower_def lower_char_idem)

text \<open>
  Claim C4. When the question list and the answer list differ in length, every formatter
  variant returns an empty result and raises nothing: the empty list for the default and
  the gemma variant, the wrapper of an empty conversation for the llama variant.
\<close>

theorem length_mismatch_gives_empty_result:
  assumes "length generated_questions \<noteq> length answers_questions"
  shows "create_default_template generated_questions answers_questions = Inr []
    \<and> create_gemma_template generated_questions answers_questions = Inr []
    \<and> create_llama_template generated_questions answers_questions
        = Inr [(''conversations'', [])]"
  using assms
  by (simp add: create_default_template_def create_gemma_template_def
      create_llama_template_def)

theorem length_mismatch_gives_empty_result_witness:
  "length [''Q1'', ''Q2''] \<noteq> length [''A1'']
   \<and> create_default_template [''Q1'', ''Q2''] [''A1''] = Inr []
   \<and> create_gemma_template [''Q1'', ''Q2''] [''A1''] = Inr []
   \<and> create_llama_template [''Q1'', ''Q2''] [''A1''] = Inr [(''conversations'', [])]"
  using length_mismatch_gives_empty_result [of "[''Q1'', ''Q2'']" "[''A1'']"] by simp

text \<open>The error text is distinguished: a supported kind never yields a text.\<close>

lemma supported_template_not_text:
  assumes "lower template \<in> set supported_templates"
  shows "create_template template generated_questions answers_questions supported_templates
    \<noteq> Inr (TStr s)"
  using assms by (auto simp: create_template_def split: sum.splits)

text \<open>
  Claim C8 as stated: every template kind that is not in the supported set yields the
  error value. It does not: the kind \<open>GEMMA\<close> is not in the set \<open>default, gemma, llama\<close>,
  and \<open>create_template\<close> returns the gemma records for it.
\<close>

theorem upper_case_kind_not_in_set_is_accepted:
  "''GEMMA'' \<notin> set [''default'', ''gemma'', ''llama'']
   \<and> create_template ''GEMMA'' [''Q1''] [''A1''] [''default'', ''gemma'', ''llama'']
     = Inr (TList [[(''content'', ''Q1''), (''role'', ''user'')],
                   [(''content'', ''A1''), (''role'', ''assistant'')]])"
  by code_simp

text \<open>
  Claim C8, amended. For every template kind whose lower-case form is not in the supported
  set, \<open>create_template\<close> raises nothing and returns the error text, which names the kind as
  given and ends with the supported kinds joined by commas. The error text is
  distinguished: a kind whose lower-case form is in the supported set never yields a text.
\<close>

theorem unsupported_template_gives_error_text:
  "(lower template \<notin> set supported_templates \<longrightarrow>
      create_template template generated_questions answers_questions supported_templates
        = Inr (TStr (''Error: Unsupported template '' @ [SQ] @ template @ [SQ]
                     @ ''. Choose from: '' @ join '', '' supported_templates)))
   \<and> (lower template \<in> set supported_templates \<longrightarrow>
      (\<forall>s. create_template template generated_questions answers_questions
              supported_templates \<noteq> Inr (TStr s)))"
proof (intro conjI impI allI)
  assume "lower template \<notin> set supported_templates"
  then show "create_template template generated_questions answers_questions
      supported_templates
    = Inr (TStr (''Error: Unsupported template '' @ [SQ] @ template @ [SQ]
                 @ ''. Choose from: '' @ join '', '' supported_templates))"
    by (simp add: create_template_def)
next
  fix s
  assume "lower template \<in> set supported_templates"
  then show "create_template template generated_questions answers_questions
      supported_templates \<noteq> Inr (TStr s)"
    by (rule supported_template_not_text)
qed

theorem unsupported_template_gives_error_text_witness:
  "lower ''Alpaca'' \<notin> set [''default'', ''gemma'', ''llama'']
   \<and> create_template ''Alpaca'' [''Q1''] [''A1''] [''default'', ''gemma'', ''llama'']
     = Inr (TStr (''Error: Unsupported template '' @ [SQ] @ ''Alpaca'' @ [SQ]
                  @ ''. Choose from: default, gemma, llama''))
   \<and> lower ''GEMMA'' \<in> set [''default'', ''gemma'', ''llama'']
   \<and> create_template ''GEMMA'' [''Q1''] [''A1''] [''default'', ''gemma'', ''llama'']
     \<noteq> Inr (TStr ''Error: Unsupported template'')"
proof -
  let ?sup = "[''default'', ''gemma'', ''llama'']"
  have h: "lower ''Alpaca'' \<notin> set ?sup"
    by code_simp
  have g: "lower ''GEMMA'' \<in> set ?sup"
    by code_simp
  have a: "create_template ''Alpaca'' [''Q1''] [''A1''] ?sup
      = Inr (TStr (''Error: Unsupported template '' @ [SQ] @ ''Alpaca'' @ [SQ]
                   @ ''. Choose from: '' @ join '', '' ?sup))"
    using h unsupported_template_gives_error_text [of "''Alpaca''" ?sup "[''Q1'']" "[''A1'']"]
    by blast
  have j: "join '', '' ?sup = ''default, gemma, llama''" by simp
  have b: "create_template ''GEMMA'' [''Q1''] [''A1''] ?sup
      \<noteq> Inr (TStr ''Error: Unsupported template'')"
    using g unsupported_template_gives_error_text [of "''GEMMA''" ?sup "[''Q1'']" "[''A1'']"]
    by blast
  show ?thesis using h g a b unfolding j by simp
qed

text \<open>
  Claim C9. The dispatch on the template kind ignores case: when the lower-case form of
  the kind is supported and the two lists have equal length, \<open>create_template\<close> returns for
  the kind what it returns for its lower-case form.
\<close>

theorem create_template_case_insensitive:
  assumes "lower template \<in> set supported_templates"
    and "length generated_questions = length answers_questions"
  shows "create_template template generated_questions answers_questions supported_templates
    = create_template (lower template) generated_questions answers_questions
        supported_templates"
  using assms by (simp add: create_template_def lower_idem)

theorem create_template_case_insensitive_witness:
  "lower ''GeMMa'' \<in> set [''default'', ''gemma'', ''llama'']
   \<and> length [''Q1''] = length [''A1'']
   \<and> create_template ''GeMMa'' [''Q1''] [''A1''] [''default'', ''gemma'', ''llama'']
     = create_template (lower ''GeMMa'') [''Q1''] [''A1''] [''default'', ''gemma'', ''llama'']
   \<and> create_template ''GeMMa'' [''Q1''] [''A1''] [''default'', ''gemma'', ''llama'']
     = Inr (TList [[(''content'', ''Q1''), (''role'', ''user'')],
                   [(''content'', ''A1''), (''role'', ''assistant'')]])"
proof -
  have h: "lower ''GeMMa'' \<in> set [''default'', ''gemma'', ''llama'']"
    by code_simp
  have l: "length [''Q1''] = length [''A1'']" by simp
  have v: "create_template ''GeMMa'' [''Q1''] [''A1''] [''default'', ''gemma'', ''llama'']
     = Inr (TList [[(''content'', ''Q1''), (''role'', ''user'')],
                   [(''content'', ''A1''), (''role'', ''assistant'')]])"
    by code_simp
  show ?thesis
    using h l v create_template_case_insensitive [OF h l] by simp
qed

section \<open>Answer generator\<close>

lemma strip_by_decomp:
  "\<exists>pre suf. s = pre @ strip_by P s @ suf \<and> (\<forall>c\<in>set pre. P c) \<and> (\<forall>c\<in>set suf. P c)"
proof -
  define t where "t = dropWhile P s"
  define u where "u = dropWhile P (rev t)"
  have r: "strip_by P s = rev u" by (simp add: strip_by_def t_def u_def)
  have s: "s = takeWhile P s @ t" by (simp add: t_def)
  have "rev t = takeWhile P (rev t) @ u" by (simp add: u_def)
  then have "rev (rev t) = rev (takeWhile P (rev t) @ u)" by simp
  then have t: "t = rev u @ rev (takeWhile P (rev t))" by simp
  have p1: "\<forall>c\<in>set (takeWhile P s). P c" by (auto dest: set_takeWhileD)
  have p2: "\<forall>c\<in>set (rev (takeWhile P (rev t))). P c" by (auto dest: set_takeWhileD)
  have "s = takeWhile P s @ strip_by P s @ rev (takeWhile P (rev t))"
    using s t r by simp
  with p1 p2 show ?thesis by blast
qed

lemma strip_by_sandwich:
  assumes "\<forall>c\<in>set pre. P c" and "\<forall>c\<in>set suf. P c"
    and "m \<noteq> []" and "\<not> P (hd m)" and "\<not> P (last m)"
  shows "strip_by P (pre @ m @ suf) = m"
proof -
  have a: "dropWhile P (pre @ m @ suf) = m @ suf"
    using assms(1,3,4) by (cases m) (simp_all add: dropWhile_append)
  have "rev m \<noteq> []" and "\<not> P (hd (rev m))"
    using assms(3,5) by (simp_all add: hd_rev)
  then have b: "dropWhile P (rev suf @ rev m) = rev m"
    using assms(2) by (cases "rev m") (simp_all add: dropWhile_append)
  show ?thesis by (simp add: strip_by_def a b)
qed

lemma strip_by_ends:
  assumes "strip_by P s \<noteq> []"
  shows "\<not> P (hd (strip_by P s)) \<and> \<not> P (last (strip_by P s))"
proof -
  define t where "t = dropWhile P s"
  define u where "u = dropWhile P (rev t)"
  have r: "strip_by P s = rev u" by (simp add: strip_by_def t_def u_def)
  have u: "u \<noteq> []" using assms r by simp
  then have l: "\<not> P (hd u)" unfolding u_def by (rule hd_dropWhile)
  have "rev t = takeWhile P (rev t) @ u" by (simp add: u_def)
  then have "rev (rev t) = rev (takeWhile P (rev t) @ u)" by simp
  then have t: "t = rev u @ rev (takeWhile P (rev t))" by simp
  have "t \<noteq> []" using t u by auto
  then have "\<not> P (hd t)" unfolding t_def by (rule hd_dropWhile)
  moreover have "hd t = hd (rev u)" using t u by (metis hd_append2 rev_is_Nil_conv)
  ultimately show ?thesis using l u r by (simp add: last_rev)
qed


lemma sentinel_ends: "sentinel \<noteq> [] \<and> \<not> is_space (hd sentinel) \<and> \<not> is_space (last sentinel)"
  by (simp add: sentinel_def is_space_def)

text \<open>
  Claim C10. For a successful model reply \<open>answer_question_ollama\<close> returns the reply with
  its leading and trailing whitespace removed and nothing else changed: the reply is the
  result between two runs of whitespace, and the result neither starts nor ends with
  whitespace. A reply that is the abstention sentinel between whitespace is returned as
  the sentinel itself.
\<close>

theorem answer_is_stripped_reply:
  assumes "context \<noteq> []" and "question \<noteq> []"
    and "chat model [[(''role'', ''user''), (''content'', answer_prompt question context)]]
           temperature w = (Reply reply, w')"
  shows "answer_question_ollama chat question context model temperature w
           = (Some (strip reply), w')
    \<and> (\<exists>pre suf. reply = pre @ strip reply @ suf
          \<and> (\<forall>c\<in>set pre. is_space c) \<and> (\<forall>c\<in>set suf. is_space c))
    \<and> (strip reply = [] \<or> (\<not> is_space (hd (strip reply)) \<and> \<not> is_space (last (strip reply))))
    \<and> (\<forall>pre suf. reply = pre @ sentinel @ suf
          \<and> (\<forall>c\<in>set pre. is_space c) \<and> (\<forall>c\<in>set suf. is_space c)
          \<longrightarrow> answer_question_ollama chat question context model temperature w
                = (Some sentinel, w'))"
proof -
  have r: "answer_question_ollama chat question context model temperature w
      = (Some (strip reply), w')"
    using assms by (simp add: answer_question_ollama_def Let_def)
  have d: "\<exists>pre suf. reply = pre @ strip reply @ suf
          \<and> (\<forall>c\<in>set pre. is_space c) \<and> (\<forall>c\<in>set suf. is_space c)"
    unfolding strip_def by (rule strip_by_decomp)
  have e: "strip reply = [] \<or> (\<not> is_space (hd (strip reply)) \<and> \<not> is_space (last (strip reply)))"
    unfolding strip_def using strip_by_ends [of is_space reply] by blast
  have s: "strip (pre @ sentinel @ suf) = sentinel"
    if "\<forall>c\<in>set pre. is_space c" and "\<forall>c\<in>set suf. is_space c" for pre suf
    unfolding strip_def using that sentinel_ends by (intro strip_by_sandwich) simp_all
  show ?thesis using r d e s by auto
qed



theorem answer_is_stripped_reply_witness:
  "answer_question_ollama abstaining_chat ''What boils?'' ''Water boils.'' ''llama3'' (1 / 10) 0
     = (Some sentinel, 1)
   \<and> strip (''  '' @ [LF] @ sentinel @ '' '' @ [LF]) = sentinel"
proof -
  let ?reply = "''  '' @ [LF] @ sentinel @ '' '' @ [LF]"
  have c: "''Water boils.'' \<noteq> []" and q: "''What boils?'' \<noteq> []" by simp_all
  have r: "abstaining_chat ''llama3''
      [[(''role'', ''user''), (''content'', answer_prompt ''What boils?'' ''Water boils.'')]]
      (1 / 10) 0 = (Reply ?reply, 1)"
    by (simp add: abstaining_chat_def)
  note t = answer_is_stripped_reply
    [of "''Water boils.''" "''What boils?''" abstaining_chat "''llama3''" "1 / 10" 0, OF c q r]
  have a: "answer_question_ollama abstaining_chat ''What boils?'' ''Water boils.'' ''llama3''
      (1 / 10) 0 = (Some (strip ?reply), 1)"
    using t by blast
  have "?reply = (''  '' @ [LF]) @ sentinel @ ('' '' @ [LF])
      \<and> (\<forall>c\<in>set (''  '' @ [LF]). is_space c) \<and> (\<forall>c\<in>set ('' '' @ [LF]). is_space c)
      \<longrightarrow> answer_question_ollama abstaining_chat ''What boils?'' ''Water boils.'' ''llama3''
            (1 / 10) 0 = (Some sentinel, 1)"
    using t by blast
  moreover have "\<forall>c\<in>set (''  '' @ [LF]). is_space c" and "\<forall>c\<in>set ('' '' @ [LF]). is_space c"
    by (simp_all add: is_space_def LF_def)
  ultimately have b: "answer_question_ollama abstaining_chat ''What boils?'' ''Water boils.''
      ''llama3'' (1 / 10) 0 = (Some sentinel, 1)"
    by simp
  show ?thesis using a b by simp
qed








section \<open>Response parser: the fallback\<close>

lemma in_set_dropWhile_keep:
  "x \<in> set xs \<Longrightarrow> \<not> P x \<Longrightarrow> x \<in> set (dropWhile P xs)"
  by (induction xs) auto

lemma question_mark_survives_sub_marker:
  assumes "CHR ''?'' \<in> set line"
  shows "CHR ''?'' \<in> set (sub_marker line)"
proof -
  have s: "\<not> is_space (CHR ''?'')" by (simp add: is_space_def)
  have m: "\<not> is_marker (CHR ''?'')" by (simp add: is_marker_def is_decimal_def)
  have "CHR ''?'' \<in> set (dropWhile is_space (dropWhile is_marker (dropWhile is_space line)))"
    using assms s m by (intro in_set_dropWhile_keep)
  then show ?thesis using assms by (simp add: sub_marker_def Let_def)
qed

lemma fallback_loop_step:
  "fallback_loop (l # ls) acc =
     fallback_loop ls (acc @ (case heuristic_accept l of None \<Rightarrow> [] | Some q \<Rightarrow> [q]))"
proof -
  have "CHR ''?'' \<in> set (strip l) \<Longrightarrow> CHR ''?'' \<in> set (sub_marker (strip l))"
    by (rule question_mark_survives_sub_marker)
  then show ?thesis
    by (auto simp: heuristic_accept_def Let_def)
qed

lemma fallback_loop_eq:
  "fallback_loop ls acc = acc @ List.map_filter heuristic_accept ls"
proof (induction ls arbitrary: acc)
  case Nil
  show ?case by (simp add: List.map_filter_simps)
next
  case (Cons l ls)
  show ?case
    unfolding fallback_loop_step Cons.IH
    by (cases "heuristic_accept l") (simp_all add: List.map_filter_simps)
qed

lemma dropWhile_all: "\<forall>c\<in>set s. P c \<Longrightarrow> dropWhile P s = []"
  by simp

lemma strip_by_all: "\<forall>c\<in>set s. P c \<Longrightarrow> strip_by P s = []"
  by (simp add: strip_by_def dropWhile_all)

lemma strip_by_Nil_all:
  assumes "strip_by P s = []"
  shows "\<forall>c\<in>set s. P c"
proof -
  obtain pre suf where "s = pre @ strip_by P s @ suf"
    and "\<forall>c\<in>set pre. P c" and "\<forall>c\<in>set suf. P c"
    using strip_by_decomp [of s P] by blast
  then show ?thesis using assms by (metis Un_iff append_Nil set_append)
qed

lemma match_question_blank:
  "\<forall>c\<in>set s. is_space c \<Longrightarrow> match_question s = None"
  by (simp add: match_question_def dropWhile_all)

lemma findall_questions_blank:
  "\<forall>c\<in>set s. is_space c \<Longrightarrow> findall_questions bol s = []"
proof (induction s arbitrary: bol)
  case Nil
  show ?case by simp
next
  case (Cons c cs)
  have "match_question (c # cs) = None"
    using Cons.prems by (rule match_question_blank)
  then show ?case using Cons by simp
qed

lemma splitlines_from_chars:
  "l \<in> set (splitlines_from cur s) \<Longrightarrow> set l \<subseteq> set cur \<union> set s"
  by (induction cur s rule: splitlines_from.induct) (auto split: if_splits)

lemma heuristic_accept_blank:
  assumes "\<forall>c\<in>set l. is_space c"
  shows "heuristic_accept l = None"
proof -
  have "strip l = []" unfolding strip_def using assms by (rule strip_by_all)
  then show ?thesis by (simp add: heuristic_accept_def)
qed

lemma heuristic_questions_blank:
  assumes "\<forall>c\<in>set s. is_space c"
  shows "heuristic_questions s = []"
proof -
  have "heuristic_accept l = None" if "l \<in> set (splitlines s)" for l
  proof -
    have "set l \<subseteq> set s"
      using that splitlines_from_chars [of l "[]" s] by (simp add: splitlines_def)
    then show ?thesis using assms by (intro heuristic_accept_blank) blast
  qed
  then show ?thesis
    by (simp add: heuristic_questions_def List.map_filter_def filter_empty_conv)
qed

lemma parse_blank:
  assumes "strip s = []"
  shows "parse_questions_from_response s = []" and "primary_questions s = []"
    and "heuristic_questions s = []"
proof -
  have b: "\<forall>c\<in>set s. is_space c"
    using assms unfolding strip_def by (rule strip_by_Nil_all)
  show "parse_questions_from_response s = []"
    using assms by (simp add: parse_questions_from_response_def)
  show "primary_questions s = []"
    using findall_questions_blank [OF b] by (simp add: primary_questions_def)
  show "heuristic_questions s = []"
    using b by (rule heuristic_questions_blank)
qed

lemma parse_not_blank:
  assumes "strip s \<noteq> []"
  shows "parse_questions_from_response s =
    (if primary_questions s = [] then heuristic_questions s else primary_questions s)"
proof -
  have "s \<noteq> []" using assms by (auto simp: strip_def strip_by_def)
  then show ?thesis
    using assms
    by (simp add: parse_questions_from_response_def Let_def primary_questions_def
        heuristic_questions_def fallback_loop_eq)
qed

text \<open>
  Claim C7 as stated: the fallback runs when the primary strategy yields zero matches and
  never when it found anything. It does run after a match: in the text below the primary
  pattern matches the line \<open>1.\<close> with an empty content, no question comes of it, and the
  parser returns what the heuristic accepts.
\<close>

theorem fallback_runs_after_blank_match:
  "findall_questions True (''What is the capital of France?'' @ [LF] @ ''1.'') = [[]]
   \<and> primary_questions (''What is the capital of France?'' @ [LF] @ ''1.'') = []
   \<and> fallback_loop (splitlines (''What is the capital of France?'' @ [LF] @ ''1.'')) []
       = [''What is the capital of France?'']
   \<and> parse_questions_from_response (''What is the capital of France?'' @ [LF] @ ''1.'')
       = [''What is the capital of France?'']"
  by code_simp

text \<open>
  Claim C7, amended. When the primary strategy yields no question (it found no match, or
  only matches whose content is blank), the parser returns what the per-line heuristic
  accepts, in the order of the lines: for a line longer than 2 characters that starts with
  a digit or a bullet, what is left after the marker if it still contains a question mark;
  for a line with a question mark and more than 3 tokens, the line. When the primary
  strategy yields at least one question the result is the primary result, and the fallback
  has no part in it.
\<close>

theorem parse_falls_back_to_heuristic:
  "(findall_questions True response_text = []
      \<longrightarrow> parse_questions_from_response response_text = heuristic_questions response_text)
   \<and> (primary_questions response_text = []
      \<longrightarrow> parse_questions_from_response response_text = heuristic_questions response_text)
   \<and> (primary_questions response_text \<noteq> []
      \<longrightarrow> parse_questions_from_response response_text = primary_questions response_text)
   \<and> parse_questions_from_response (''- What time is it?'' @ [LF] @ ''- ok'')
       = [''What time is it?'']"
proof -
  have m: "primary_questions response_text = []" if "findall_questions True response_text = []"
    using that by (simp add: primary_questions_def)
  have a: "parse_questions_from_response response_text = heuristic_questions response_text"
    if "primary_questions response_text = []"
  proof (cases "strip response_text = []")
    case True
    then show ?thesis by (simp add: parse_blank)
  next
    case False
    then show ?thesis using that by (simp add: parse_not_blank)
  qed
  have b: "parse_questions_from_response response_text = primary_questions response_text"
    if "primary_questions response_text \<noteq> []"
  proof (cases "strip response_text = []")
    case True
    then show ?thesis using that by (simp add: parse_blank)
  next
    case False
    then show ?thesis using that by (simp add: parse_not_blank)
  qed
  have e: "parse_questions_from_response (''- What time is it?'' @ [LF] @ ''- ok'')
       = [''What time is it?'']"
    by code_simp
  show ?thesis using m a b e by blast
qed

theorem parse_falls_back_to_heuristic_witness:
  "findall_questions True (''- What time is it?'' @ [LF] @ ''- ok'') = []
   \<and> primary_questions (''- What time is it?'' @ [LF] @ ''- ok'') = []
   \<and> parse_questions_from_response (''- What time is it?'' @ [LF] @ ''- ok'')
       = heuristic_questions (''- What time is it?'' @ [LF] @ ''- ok'')
   \<and> heuristic_questions (''- What time is it?'' @ [LF] @ ''- ok'') = [''What time is it?'']
   \<and> primary_questions (''1. What is X?'' @ [LF] @ ''2. *Why Y?*'') \<noteq> []
   \<and> parse_questions_from_response (''1. What is X?'' @ [LF] @ ''2. *Why Y?*'')
       = primary_questions (''1. What is X?'' @ [LF] @ ''2. *Why Y?*'')
   \<and> primary_questions (''1. What is X?'' @ [LF] @ ''2. *Why Y?*'')
       = [''What is X?'', ''Why Y?'']"
proof -
  let ?t1 = "''- What time is it?'' @ [LF] @ ''- ok''"
  let ?t2 = "''1. What is X?'' @ [LF] @ ''2. *Why Y?*''"
  have f: "findall_questions True ?t1 = []" by code_simp
  have p1: "primary_questions ?t1 = []" by code_simp
  have h1: "heuristic_questions ?t1 = [''What time is it?'']" by code_simp
  have p2: "primary_questions ?t2 = [''What is X?'', ''Why Y?'']" by code_simp
  then have n2: "primary_questions ?t2 \<noteq> []" by simp
  have r1: "parse_questions_from_response ?t1 = heuristic_questions ?t1"
    using parse_falls_back_to_heuristic [of ?t1] f by blast
  have r2: "parse_questions_from_response ?t2 = primary_questions ?t2"
    using parse_falls_back_to_heuristic [of ?t2] n2 by blast
  show ?thesis using f p1 h1 p2 n2 r1 r2 by blast
qed

end
